theory Spec2Isabelle
  imports Main "HOL-Library.Log_Nat" "HOL-Library.AList" "HOL-Library.FSet"
begin

section \<open>Python floats\<close>

text \<open>
  The prices of \<^verbatim>\<open>unittest.py\<close> are Python \<^verbatim>\<open>float\<close> literals (\<^verbatim>\<open>2.30\<close>, \<^verbatim>\<open>0.60\<close>,
  \<^verbatim>\<open>5.00\<close>) and are added with \<^verbatim>\<open>+\<close>, \<^verbatim>\<open>+=\<close> and \<^verbatim>\<open>sum\<close>: IEEE 754 binary64 numbers,
  every literal and every sum rounded to the nearest representable number, ties to the
  even mantissa.

  \<open>Finite m e\<close> is the number \<open>m * 2 ^ e\<close>, kept in the form where \<open>m\<close> is odd (or
  \<open>m = 0\<close> and \<open>e = 0\<close>), so that two finite floats are equal numbers, Python's \<^verbatim>\<open>==\<close>,
  exactly when they are the same term. The two zeros of the format, which \<^verbatim>\<open>==\<close> does not
  tell apart, are the one \<open>Finite 0 0\<close>.
\<close>

datatype pyfloat = Finite int int | PosInf | NegInf | NaN

function strip_zeros :: "int \<Rightarrow> int \<Rightarrow> pyfloat" where
  "strip_zeros m e = (if m = 0 then Finite 0 0
                      else if even m then strip_zeros (m div 2) (e + 1) else Finite m e)"
  by pat_completeness auto
termination
  by (relation "measure (\<lambda>(m, e). nat \<bar>m\<bar>)") auto

text \<open>\<open>floor_log2 n d\<close> is the binary exponent of the fraction \<open>n / d\<close> (\<open>0 < n\<close>, \<open>0 < d\<close>):
  the \<open>k\<close> with \<open>2 ^ k \<le> n / d < 2 ^ (k + 1)\<close>.\<close>

definition floor_log2 :: "int \<Rightarrow> int \<Rightarrow> int" where
  "floor_log2 n d = (let k = bitlen n - bitlen d
     in if (if 0 \<le> k then d * 2 ^ nat k \<le> n else d \<le> n * 2 ^ nat (- k)) then k else k - 1)"

text \<open>The integer nearest to \<open>n / d\<close>, a tie going to the even one.\<close>

definition round_half_even :: "int \<Rightarrow> int \<Rightarrow> int" where
  "round_half_even n d = (let q = n div d; r = n mod d
     in if 2 * r < d then q else if d < 2 * r then q + 1 else if even q then q else q + 1)"

text \<open>The binary64 number nearest to \<open>n / d\<close> (\<open>0 < d\<close>): the magnitude is rounded to 53
  bits of mantissa above the smallest exponent \<open>- 1074\<close>, and is infinite from
  \<open>2 ^ 1024\<close> on.\<close>

definition round_to_double :: "int \<Rightarrow> int \<Rightarrow> pyfloat" where
  "round_to_double n d = (if n = 0 then Finite 0 0 else
     let a = \<bar>n\<bar>;
         qe = max (floor_log2 a d - 52) (- 1074);
         m = (if 0 \<le> qe then round_half_even a (d * 2 ^ nat qe)
              else round_half_even (a * 2 ^ nat (- qe)) d)
     in if 1024 < bitlen m + qe then (if 0 < n then PosInf else NegInf)
        else strip_zeros (if 0 < n then m else - m) qe)"

text \<open>Float addition: the exact sum, rounded; the infinities and the NaN as IEEE 754 has
  them.\<close>

fun fadd :: "pyfloat \<Rightarrow> pyfloat \<Rightarrow> pyfloat" where
  "fadd (Finite m1 e1) (Finite m2 e2) =
     (let e = min e1 e2; s = m1 * 2 ^ nat (e1 - e) + m2 * 2 ^ nat (e2 - e)
      in if 0 \<le> e then round_to_double (s * 2 ^ nat e) 1 else round_to_double s (2 ^ nat (- e)))"
| "fadd NaN y = NaN"
| "fadd x NaN = NaN"
| "fadd PosInf NegInf = NaN"
| "fadd NegInf PosInf = NaN"
| "fadd PosInf y = PosInf"
| "fadd x PosInf = PosInf"
| "fadd NegInf y = NegInf"
| "fadd x NegInf = NegInf"

fun fneg :: "pyfloat \<Rightarrow> pyfloat" where
  "fneg (Finite m e) = Finite (- m) e"
| "fneg PosInf = NegInf"
| "fneg NegInf = PosInf"
| "fneg NaN = NaN"

definition fsub :: "pyfloat \<Rightarrow> pyfloat \<Rightarrow> pyfloat" where
  "fsub x y = fadd x (fneg y)"

fun fabs :: "pyfloat \<Rightarrow> pyfloat" where
  "fabs (Finite m e) = Finite \<bar>m\<bar> e"
| "fabs PosInf = PosInf"
| "fabs NegInf = PosInf"
| "fabs NaN = NaN"

text \<open>The comparison \<^verbatim>\<open>x <= y\<close> of two floats, false when one of them is the NaN.\<close>

fun fle :: "pyfloat \<Rightarrow> pyfloat \<Rightarrow> bool" where
  "fle (Finite m1 e1) (Finite m2 e2) =
     (let e = min e1 e2 in m1 * 2 ^ nat (e1 - e) \<le> m2 * 2 ^ nat (e2 - e))"
| "fle NaN y = False"
| "fle x NaN = False"
| "fle NegInf y = True"
| "fle x PosInf = True"
| "fle x y = False"

text \<open>A decimal literal with two places, \<^verbatim>\<open>2.30\<close> being \<open>literal 230\<close>: Python reads a
  literal as the nearest float.\<close>

definition literal :: "int \<Rightarrow> pyfloat" where
  "literal cents = round_to_double cents 100"

text \<open>
  The built-in \<^verbatim>\<open>sum\<close> depends on the interpreter that runs the program. It starts from
  the integer \<^verbatim>\<open>0\<close>, which is \<^verbatim>\<open>0.0\<close> in the addition of the first float. Up to
  CPython 3.11 it then adds every further element to the result
  (\<^verbatim>\<open>f_result += x\<close>). From CPython 3.12 on it adds the further elements by Neumaier's
  compensated summation, next to the result \<^verbatim>\<open>f_result\<close> a correction \<^verbatim>\<open>c\<close>:
  \<^verbatim>\<open>
  double x = PyFloat_AS_DOUBLE(item);
  double t = f_result + x;
  if (fabs(f_result) >= fabs(x)) { c += (f_result - t) + x; }
  else                           { c += (x - t) + f_result; }
  f_result = t;
  \<close>
  and at the end \<^verbatim>\<open>if (c && Py_IS_FINITE(c)) { f_result += c; }\<close>. The functions
  that call \<^verbatim>\<open>sum\<close> take the interpreter as their first argument.
\<close>

datatype py_version = CPython_3_11 | CPython_3_12

fun nonzero_finite :: "pyfloat \<Rightarrow> bool" where
  "nonzero_finite (Finite m e) = (m \<noteq> 0)"
| "nonzero_finite x = False"

fun compensated_sum :: "pyfloat \<Rightarrow> pyfloat \<Rightarrow> pyfloat list \<Rightarrow> pyfloat" where
  "compensated_sum f_result c [] = (if nonzero_finite c then fadd f_result c else f_result)"
| "compensated_sum f_result c (x # xs) =
     (let t = fadd f_result x;
          c' = (if fle (fabs x) (fabs f_result) then fadd c (fadd (fsub f_result t) x)
                else fadd c (fadd (fsub x t) f_result))
      in compensated_sum t c' xs)"

fun py_sum :: "py_version \<Rightarrow> pyfloat list \<Rightarrow> pyfloat" where
  "py_sum v [] = Finite 0 0"
| "py_sum CPython_3_11 (x # xs) = foldl fadd (fadd (Finite 0 0) x) xs"
| "py_sum CPython_3_12 (x # xs) = compensated_sum (fadd (Finite 0 0) x) (Finite 0 0) xs"

section \<open>Exceptions\<close>

text \<open>Both \<^verbatim>\<open>raise ValueError(...)\<close> and \<^verbatim>\<open>raise IndexError(...)\<close> carry their message. A
  method that mutates its object returns the outcome together with the object as the
  call leaves it, also when it raises.\<close>

datatype error = ValueError string | IndexError string

type_synonym 's call = "'s \<Rightarrow> (error + unit) \<times> 's"

section \<open>Drink\<close>

definition valid_bases :: "string list" where
  "valid_bases = [''water'', ''sbrite'', ''pokeacola'', ''Mr. Salt'', ''hill fog'', ''leaf wine'']"

definition valid_flavors :: "string list" where
  "valid_flavors = [''lemon'', ''cherry'', ''strawberry'', ''mint'', ''blueberry'', ''lime'']"

record drink =
  base :: "string option"
  flavors :: "string fset"

definition Drink :: drink where
  "Drink = \<lparr>base = None, flavors = {||}\<rparr>"

definition add_base :: "string \<Rightarrow> drink call" where
  "add_base b d =
     (if b \<notin> set valid_bases then (Inl (ValueError (''Invalid base: '' @ b)), d)
      else (Inr (), d\<lparr>base := Some b\<rparr>))"

definition get_base :: "drink \<Rightarrow> string option" where
  "get_base d = base d"

definition add_flavor :: "string \<Rightarrow> drink call" where
  "add_flavor f d =
     (if f \<notin> set valid_flavors then (Inl (ValueError (''Invalid flavor: '' @ f)), d)
      else if f |\<in>| flavors d
        then (Inl (ValueError (''Flavor '' @ [CHR 0x27] @ f @ [CHR 0x27] @ '' has already been added.'')), d)
      else (Inr (), d\<lparr>flavors := finsert f (flavors d)\<rparr>))"

text \<open>\<^verbatim>\<open>list(self._flavors)\<close> lists the elements of the set, each once, in an order
  that Python leaves open: \<open>get_flavors d xs\<close> says that \<open>xs\<close> is a list the call may
  return.\<close>

definition get_flavors :: "drink \<Rightarrow> string list \<Rightarrow> bool" where
  "get_flavors d xs \<longleftrightarrow> distinct xs \<and> fset_of_list xs = flavors d"

section \<open>Food\<close>

definition valid_food_items :: "(string \<times> pyfloat) list" where
  "valid_food_items =
     [(''Hotdog'', literal 230), (''Corndog'', literal 200), (''Ice Cream'', literal 300),
      (''Onion Rings'', literal 175), (''French Fries'', literal 150),
      (''Tater Tots'', literal 170), (''Nacho Chips'', literal 190)]"

definition valid_toppings :: "(string \<times> pyfloat) list" where
  "valid_toppings =
     [(''Cherry'', literal 0), (''Whipped Cream'', literal 0), (''Caramel Sauce'', literal 50),
      (''Chocolate Sauce'', literal 50), (''Nacho Cheese'', literal 30), (''Chili'', literal 60),
      (''Bacon Bits'', literal 30), (''Ketchup'', literal 0), (''Mustard'', literal 0)]"

text \<open>The dictionary \<^verbatim>\<open>_toppings\<close> keeps its keys in the order of their first insertion,
  and \<^verbatim>\<open>sum\<close> reads its values in that order: an association list, where
  \<^const>\<open>AList.update\<close> overwrites a key in place and appends a new one.\<close>

record food =
  food_item :: string
  base_price :: pyfloat
  toppings :: "(string \<times> pyfloat) list"

definition Food :: "string \<Rightarrow> error + food" where
  "Food name =
     (case map_of valid_food_items name of
        None \<Rightarrow> Inl (ValueError (''Invalid food item: '' @ name))
      | Some p \<Rightarrow> Inr \<lparr>food_item = name, base_price = p, toppings = []\<rparr>)"

definition add_topping :: "string \<Rightarrow> food call" where
  "add_topping t f =
     (case map_of valid_toppings t of
        None \<Rightarrow> (Inl (ValueError (''Invalid topping: '' @ t)), f)
      | Some p \<Rightarrow> (Inr (), f\<lparr>toppings := AList.update t p (toppings f)\<rparr>))"

definition get_toppings :: "food \<Rightarrow> string list" where
  "get_toppings f = map fst (toppings f)"

definition get_price :: "py_version \<Rightarrow> food \<Rightarrow> pyfloat" where
  "get_price v f = fadd (base_price f) (py_sum v (map snd (toppings f)))"

section \<open>Order\<close>

text \<open>\<^verbatim>\<open>add_item\<close> takes any object; \<^verbatim>\<open>get_total\<close> tells a \<^verbatim>\<open>Drink\<close>, a \<^verbatim>\<open>Food\<close> and
  anything else apart with \<^verbatim>\<open>isinstance\<close>.\<close>

datatype 'a item = DrinkItem drink | FoodItem food | OtherItem 'a

record 'a order =
  items :: "'a item list"

definition Order :: "'a order" where
  "Order = \<lparr>items = []\<rparr>"

definition add_item :: "'a item \<Rightarrow> 'a order call" where
  "add_item x ord = (Inr (), ord\<lparr>items := items ord @ [x]\<rparr>)"

text \<open>\<^verbatim>\<open>list.pop(index)\<close>: the empty list raises; a negative index counts from the end,
  an index outside the list raises.\<close>

definition list_pop :: "int \<Rightarrow> 'a list \<Rightarrow> error + 'a list" where
  "list_pop i xs =
     (let n = int (length xs); j = (if i < 0 then i + n else i)
      in if n = 0 then Inl (IndexError ''pop from empty list'')
         else if j < 0 \<or> n \<le> j then Inl (IndexError ''pop index out of range'')
         else Inr (take (nat j) xs @ drop (nat j + 1) xs))"

definition remove_item :: "int \<Rightarrow> 'a order call" where
  "remove_item index ord =
     (if index < 0 \<or> int (length (items ord)) \<le> index
      then (Inl (IndexError ''Invalid index.''), ord)
      else (case list_pop index (items ord) of
              Inl e \<Rightarrow> (Inl e, ord)
            | Inr ys \<Rightarrow> (Inr (), ord\<lparr>items := ys\<rparr>)))"

definition get_num_items :: "'a order \<Rightarrow> int" where
  "get_num_items ord = int (length (items ord))"

text \<open>The loop of \<^verbatim>\<open>get_total\<close>, with \<^verbatim>\<open>total\<close> as the accumulator \<open>tot\<close>.\<close>

fun total_loop :: "py_version \<Rightarrow> pyfloat \<Rightarrow> 'a item list \<Rightarrow> pyfloat" where
  "total_loop v tot [] = tot"
| "total_loop v tot (DrinkItem d # rest) = total_loop v (fadd tot (literal 500)) rest"
| "total_loop v tot (FoodItem f # rest) = total_loop v (fadd tot (get_price v f)) rest"
| "total_loop v tot (OtherItem x # rest) = total_loop v tot rest"

definition get_total :: "py_version \<Rightarrow> 'a order \<Rightarrow> pyfloat" where
  "get_total v ord = total_loop v (literal 0) (items ord)"

section \<open>Calls in sequence\<close>

text \<open>A caller may call the methods of an object in any order and catch what they
  raise. \<open>run_drink\<close> and \<open>run_food\<close> give the object after a list of calls; the
  getters leave it as it is.\<close>

datatype drink_op = AddBase string | GetBase | AddFlavor string | GetFlavors

fun drink_step :: "drink \<Rightarrow> drink_op \<Rightarrow> drink" where
  "drink_step d (AddBase b) = snd (add_base b d)"
| "drink_step d GetBase = d"
| "drink_step d (AddFlavor f) = snd (add_flavor f d)"
| "drink_step d GetFlavors = d"

definition run_drink :: "drink_op list \<Rightarrow> drink \<Rightarrow> drink" where
  "run_drink ops d = foldl drink_step d ops"

datatype food_op = AddTopping string | GetToppings | GetPrice

fun food_step :: "food \<Rightarrow> food_op \<Rightarrow> food" where
  "food_step f (AddTopping t) = snd (add_topping t f)"
| "food_step f GetToppings = f"
| "food_step f GetPrice = f"

definition run_food :: "food_op list \<Rightarrow> food \<Rightarrow> food" where
  "run_food ops f = foldl food_step f ops"

section \<open>Invariants of the data model\<close>

definition drink_inv :: "drink \<Rightarrow> bool" where
  "drink_inv d \<longleftrightarrow>
     (case base d of None \<Rightarrow> True | Some b \<Rightarrow> b \<in> set valid_bases) \<and>
     fset (flavors d) \<subseteq> set valid_flavors"

definition food_inv :: "food \<Rightarrow> bool" where
  "food_inv f \<longleftrightarrow>
     food_item f \<in> fst ` set valid_food_items \<and>
     set (map fst (toppings f)) \<subseteq> fst ` set valid_toppings"

text \<open>What the constructor and \<^verbatim>\<open>add_topping\<close> keep beyond that: the base price is the
  table's price of the item, and every stored topping has the table's price.\<close>

definition food_priced :: "food \<Rightarrow> bool" where
  "food_priced f \<longleftrightarrow>
     map_of valid_food_items (food_item f) = Some (base_price f) \<and>
     list_all (\<lambda>(t, p). map_of valid_toppings t = Some p) (toppings f)"

section \<open>The toppings that a sequence of calls stores\<close>

text \<open>The valid toppings that the calls of a sequence add, in the order of the calls, and
  the order of first insertion: each element where it stands first.\<close>

fun added_toppings :: "food_op list \<Rightarrow> string list" where
  "added_toppings [] = []"
| "added_toppings (AddTopping t # ops) =
     (if t \<in> set (map fst valid_toppings) then t # added_toppings ops else added_toppings ops)"
| "added_toppings (GetToppings # ops) = added_toppings ops"
| "added_toppings (GetPrice # ops) = added_toppings ops"

definition insert_new :: "'a list \<Rightarrow> 'a \<Rightarrow> 'a list" where
  "insert_new acc x = (if x \<in> set acc then acc else acc @ [x])"

definition first_insertions :: "'a list \<Rightarrow> 'a list" where
  "first_insertions xs = foldl insert_new [] xs"

section \<open>Exact decimals\<close>

text \<open>Exact decimal arithmetic would make a price the number \<open>cents / 100\<close> itself:
  \<open>is_decimal x cents\<close> says that the float \<open>x\<close> is that number.\<close>

fun is_decimal :: "pyfloat \<Rightarrow> int \<Rightarrow> bool" where
  "is_decimal (Finite m e) cents =
     (if 0 \<le> e then m * 2 ^ nat e * 100 = cents else m * 100 = cents * 2 ^ nat (- e))"
| "is_decimal x cents = False"

section \<open>The objects of the test suite\<close>

text \<open>\<^verbatim>\<open>Food("Hotdog")\<close>, the same after \<^verbatim>\<open>add_topping("Chili")\<close> and after
  \<^verbatim>\<open>add_topping("Nacho Cheese")\<close>, a \<^verbatim>\<open>Drink()\<close> after \<^verbatim>\<open>add_base("water")\<close>, and
  \<^verbatim>\<open>Food("Tater Tots")\<close> and \<^verbatim>\<open>Food("Nacho Chips")\<close>.\<close>

definition hotdog :: food where
  "hotdog = \<lparr>food_item = ''Hotdog'', base_price = literal 230, toppings = []\<rparr>"

definition hotdog_chili :: food where
  "hotdog_chili =
     \<lparr>food_item = ''Hotdog'', base_price = literal 230, toppings = [(''Chili'', literal 60)]\<rparr>"

definition hotdog_nacho :: food where
  "hotdog_nacho =
     \<lparr>food_item = ''Hotdog'', base_price = literal 230,
      toppings = [(''Nacho Cheese'', literal 30)]\<rparr>"

definition water :: drink where
  "water = \<lparr>base = Some ''water'', flavors = {||}\<rparr>"

definition tater_tots :: food where
  "tater_tots = \<lparr>food_item = ''Tater Tots'', base_price = literal 170, toppings = []\<rparr>"

definition nacho_chips :: food where
  "nacho_chips = \<lparr>food_item = ''Nacho Chips'', base_price = literal 190, toppings = []\<rparr>"

section \<open>The rounding of the float model\<close>

text \<open>Two checks of the model against its description: \<open>round_half_even n d\<close> is an
  integer within a half of \<open>n / d\<close>, and \<open>floor_log2 n d\<close> is the exponent \<open>k\<close> with
  \<open>2 ^ k \<le> n / d < 2 ^ (k + 1)\<close>, written without fractions.\<close>

lemma round_half_even_nearest:
  assumes "0 < d"
  shows "\<bar>2 * (round_half_even n d * d - n)\<bar> \<le> d"
proof -
  define q r where "q = n div d" and "r = n mod d"
  have n: "n = q * d + r"
    by (simp add: q_def r_def)
  have r: "0 \<le> r" "r < d"
    using assms by (simp_all add: r_def)
  have v: "round_half_even n d =
      (if 2 * r < d then q else if d < 2 * r then q + 1 else if even q then q else q + 1)"
    by (simp add: round_half_even_def Let_def q_def r_def)
  have lo: "q * d - n = - r"
    by (simp add: n)
  have hi: "(q + 1) * d - n = d - r"
    by (simp add: n algebra_simps)
  show ?thesis
    unfolding v using r lo hi by (simp split: if_splits)
qed

lemma floor_log2_bounds:
  assumes "0 < n" "0 < d"
  shows "(0 \<le> floor_log2 n d \<longrightarrow>
            d * 2 ^ nat (floor_log2 n d) \<le> n \<and> n < d * 2 ^ nat (floor_log2 n d + 1)) \<and>
         (floor_log2 n d < 0 \<longrightarrow>
            d \<le> n * 2 ^ nat (- floor_log2 n d) \<and> n * 2 ^ nat (- floor_log2 n d - 1) < d)"
proof -
  define a b where "a = nat (bitlen n - 1)" and "b = nat (bitlen d - 1)"
  from assms have pos: "1 \<le> bitlen n" "1 \<le> bitlen d"
    by (simp_all add: bitlen_ge_iff_power)
  have bl: "bitlen n = int a + 1" "bitlen d = int b + 1"
    unfolding a_def b_def using pos by linarith+
  have "nat (bitlen n) = a + 1" "nat (bitlen d) = b + 1"
    unfolding a_def b_def using pos by linarith+
  with bitlen_bounds [OF assms(1)] bitlen_bounds [OF assms(2)]
  have n: "2 ^ a \<le> n" "n < 2 ^ (a + 1)" and d: "2 ^ b \<le> d" "d < 2 ^ (b + 1)"
    by (simp_all only: a_def [symmetric] b_def [symmetric])
  show ?thesis
  proof (cases "b \<le> a")
    case True
    define c where "c = a - b"
    with True have a: "a = b + c" by simp
    have k: "bitlen n - bitlen d = int c"
      by (simp add: bl a)
    show ?thesis
    proof (cases "d * 2 ^ c \<le> n")
      case t: True
      then have v: "floor_log2 n d = int c"
        by (simp add: floor_log2_def k)
      have "n < 2 ^ b * 2 ^ (c + 1)"
        using n(2) by (simp add: a power_add mult.assoc)
      also have "\<dots> \<le> d * 2 ^ (c + 1)"
        using d(1) by (intro mult_right_mono) simp_all
      finally show ?thesis
        using t by (simp add: v nat_add_distrib)
    next
      case f: False
      then have v: "floor_log2 n d = int c - 1"
        by (simp add: floor_log2_def k)
      show ?thesis
      proof (cases c)
        case 0
        have "d < 2 * 2 ^ a"
          using d(2) by (simp add: a 0)
        with n(1) have "d \<le> n * 2" by simp
        with f show ?thesis
          by (simp add: v 0)
      next
        case (Suc c')
        have "d * 2 ^ c' \<le> 2 ^ (b + 1) * 2 ^ c'"
          using d(2) by (intro mult_right_mono) simp_all
        also have "\<dots> = 2 ^ a"
          by (simp add: a Suc power_add)
        finally have "d * 2 ^ c' \<le> n"
          using n(1) by simp
        with f show ?thesis
          by (simp add: v Suc nat_add_distrib)
      qed
    qed
  next
    case False
    define c where "c = b - a"
    with False have b: "b = a + c" and c: "0 < c" by simp_all
    have k: "bitlen n - bitlen d = - int c"
      by (simp add: bl b)
    show ?thesis
    proof (cases "d \<le> n * 2 ^ c")
      case t: True
      with c have v: "floor_log2 n d = - int c"
        by (simp add: floor_log2_def k)
      obtain c' where c': "c = Suc c'"
        using c by (cases c) simp_all
      have "n * 2 ^ c' < 2 ^ (a + 1) * 2 ^ c'"
        using n(2) by (intro mult_strict_right_mono) simp_all
      also have "\<dots> = 2 ^ b"
        by (simp add: b c' power_add)
      finally have "n * 2 ^ c' < d"
        using d(1) by simp
      with t c show ?thesis
        by (simp add: v c' nat_add_distrib)
    next
      case f: False
      with c have v: "floor_log2 n d = - int c - 1"
        by (simp add: floor_log2_def k)
      have "d < 2 ^ a * 2 ^ (c + 1)"
        using d(2) by (simp add: b power_add mult.assoc)
      also have "\<dots> \<le> n * 2 ^ (c + 1)"
        using n(1) by (intro mult_right_mono) simp_all
      finally have "d \<le> n * 2 ^ (c + 1)" by simp
      with f show ?thesis
        by (simp add: v nat_add_distrib)
    qed
  qed
qed

section \<open>Evaluating the floats of the menu\<close>

lemma literal_zero: "literal 0 = Finite 0 0"
  by (simp add: literal_def round_to_double_def)

lemma test_objects:
  "Food ''Hotdog'' = Inr hotdog"
  "add_topping ''Chili'' hotdog = (Inr (), hotdog_chili)"
  "add_topping ''Nacho Cheese'' hotdog = (Inr (), hotdog_nacho)"
  "add_base ''water'' Drink = (Inr (), water)"
  "Food ''Tater Tots'' = Inr tater_tots"
  "Food ''Nacho Chips'' = Inr nacho_chips"
  by (simp_all add: Food_def add_topping_def add_base_def Drink_def hotdog_def hotdog_chili_def
      hotdog_nacho_def water_def tater_tots_def nacho_chips_def valid_food_items_def
      valid_toppings_def valid_bases_def)

text \<open>The interpreters differ from three floats on: \<^verbatim>\<open>sum([0.5, 0.6, 0.3])\<close> is
  \<^verbatim>\<open>1.4000000000000001\<close> up to CPython 3.11 and \<^verbatim>\<open>1.4\<close> from CPython 3.12 on.\<close>

lemma py_sum_three_floats:
  "py_sum CPython_3_11 [literal 50, literal 60, literal 30] = Finite 6305039478318695 (- 52)"
  "py_sum CPython_3_12 [literal 50, literal 60, literal 30] = literal 140"
  "literal 140 = Finite 3152519739159347 (- 51)"
  by code_simp+

lemma price_hotdog_versions:
  "get_price CPython_3_11 hotdog = literal 230"
  "get_price CPython_3_12 hotdog = literal 230"
  by code_simp+

lemma price_hotdog: "get_price v hotdog = literal 230"
  by (cases v) (simp_all only: price_hotdog_versions)

lemma price_hotdog_chili_versions:
  "get_price CPython_3_11 hotdog_chili = literal 290"
  "get_price CPython_3_12 hotdog_chili = literal 290"
  by code_simp+

lemma price_hotdog_chili: "get_price v hotdog_chili = literal 290"
  by (cases v) (simp_all only: price_hotdog_chili_versions)

lemma price_hotdog_nacho:
  "get_price CPython_3_11 hotdog_nacho = Finite 1463669878895411 (- 49)"
  "get_price CPython_3_12 hotdog_nacho = Finite 1463669878895411 (- 49)"
  by code_simp+

lemma literal_260: "literal 260 = Finite 5854679515581645 (- 51)"
  by code_simp

lemma menu_plus_zero:
  "fadd (literal 230) (Finite 0 0) = literal 230"
  "fadd (literal 200) (Finite 0 0) = literal 200"
  "fadd (literal 300) (Finite 0 0) = literal 300"
  "fadd (literal 175) (Finite 0 0) = literal 175"
  "fadd (literal 150) (Finite 0 0) = literal 150"
  "fadd (literal 170) (Finite 0 0) = literal 170"
  "fadd (literal 190) (Finite 0 0) = literal 190"
  by code_simp+

lemma Food_cases:
  assumes "Food name = Inr f"
  obtains p where "map_of valid_food_items name = Some p"
    and "f = \<lparr>food_item = name, base_price = p, toppings = []\<rparr>"
  using assms by (auto simp: Food_def split: option.splits)

lemma fresh_price:
  assumes "Food name = Inr f"
  shows "get_price v f = base_price f"
proof -
  from assms obtain p where p: "map_of valid_food_items name = Some p"
    and f: "f = \<lparr>food_item = name, base_price = p, toppings = []\<rparr>"
    by (rule Food_cases)
  from p have "p \<in> {literal 230, literal 200, literal 300, literal 175, literal 150,
      literal 170, literal 190}"
    by (auto simp: valid_food_items_def split: if_splits)
  with menu_plus_zero f show ?thesis
    by (auto simp: get_price_def)
qed

lemma total_example_versions:
  "get_total CPython_3_11 \<lparr>items = [DrinkItem water, FoodItem hotdog_chili]\<rparr> = literal 790"
  "get_total CPython_3_12 \<lparr>items = [DrinkItem water, FoodItem hotdog_chili]\<rparr> = literal 790"
  "get_total CPython_3_11 \<lparr>items = [FoodItem hotdog_chili, DrinkItem water]\<rparr> = literal 790"
  "get_total CPython_3_12 \<lparr>items = [FoodItem hotdog_chili, DrinkItem water]\<rparr> = literal 790"
  by code_simp+

lemma total_example:
  "get_total v \<lparr>items = [DrinkItem water, FoodItem hotdog_chili]\<rparr> = literal 790"
  "get_total v \<lparr>items = [FoodItem hotdog_chili, DrinkItem water]\<rparr> = literal 790"
  by (cases v; simp only: total_example_versions)+

lemma ten_tater_tots:
  "get_total CPython_3_11 \<lparr>items = replicate 10 (FoodItem tater_tots)\<rparr> =
     Finite 4785074604081151 (- 48)"
  "get_total CPython_3_12 \<lparr>items = replicate 10 (FoodItem tater_tots)\<rparr> =
     Finite 4785074604081151 (- 48)"
  "literal 1700 = Finite 17 0"
  by code_simp+

lemma total_order_matters:
  "get_total CPython_3_11 \<lparr>items = [FoodItem hotdog, FoodItem hotdog, FoodItem nacho_chips]\<rparr> =
     Finite 13 (- 1)"
  "get_total CPython_3_12 \<lparr>items = [FoodItem hotdog, FoodItem hotdog, FoodItem nacho_chips]\<rparr> =
     Finite 13 (- 1)"
  "get_total CPython_3_11 \<lparr>items = [FoodItem nacho_chips, FoodItem hotdog, FoodItem hotdog]\<rparr> =
     Finite 7318349394477055 (- 50)"
  "get_total CPython_3_12 \<lparr>items = [FoodItem nacho_chips, FoodItem hotdog, FoodItem hotdog]\<rparr> =
     Finite 7318349394477055 (- 50)"
  by code_simp+

section \<open>The loop of get_total\<close>

lemma total_loop_append_drink:
  "total_loop v tot (xs @ [DrinkItem d]) = fadd (total_loop v tot xs) (literal 500)"
proof (induction xs arbitrary: tot)
  case Nil
  show ?case by simp
next
  case (Cons x xs)
  show ?case by (cases x) (simp_all add: Cons.IH)
qed

lemma total_loop_append_food:
  "total_loop v tot (xs @ [FoodItem f]) = fadd (total_loop v tot xs) (get_price v f)"
proof (induction xs arbitrary: tot)
  case Nil
  show ?case by simp
next
  case (Cons x xs)
  show ?case by (cases x) (simp_all add: Cons.IH)
qed

lemma total_loop_append_other: "total_loop v tot (xs @ [OtherItem y]) = total_loop v tot xs"
proof (induction xs arbitrary: tot)
  case Nil
  show ?case by simp
next
  case (Cons x xs)
  show ?case by (cases x) (simp_all add: Cons.IH)
qed

section \<open>Invariants along a sequence of calls\<close>

lemma drink_step_inv: "drink_inv d \<Longrightarrow> drink_inv (drink_step d x)"
  by (cases x) (auto simp: drink_inv_def add_base_def add_flavor_def)

lemma run_drink_inv: "drink_inv d \<Longrightarrow> drink_inv (run_drink ops d)"
  unfolding run_drink_def
  by (induction ops arbitrary: d) (simp_all add: drink_step_inv)

lemma update_keys_subset: "fst ` set (AList.update k v al) \<subseteq> insert k (fst ` set al)"
  by (induction al) auto

lemma food_step_inv: "food_inv f \<Longrightarrow> food_inv (food_step f x)"
proof (cases x)
  case (AddTopping t)
  assume inv: "food_inv f"
  show ?thesis
  proof (cases "map_of valid_toppings t")
    case None
    with AddTopping inv show ?thesis by (simp add: add_topping_def)
  next
    case (Some p)
    then have "(t, p) \<in> set valid_toppings" by (rule map_of_SomeD)
    then have "fst (t, p) \<in> fst ` set valid_toppings" by (rule imageI)
    with inv update_keys_subset [of t p "toppings f"] AddTopping Some show ?thesis
      by (auto simp: food_inv_def add_topping_def)
  qed
qed simp_all

lemma run_food_inv: "food_inv f \<Longrightarrow> food_inv (run_food ops f)"
  unfolding run_food_def
  by (induction ops arbitrary: f) (simp_all add: food_step_inv)

lemma Food_inv:
  assumes "Food name = Inr f"
  shows "food_inv f"
proof -
  from assms obtain p where p: "map_of valid_food_items name = Some p"
    and f: "f = \<lparr>food_item = name, base_price = p, toppings = []\<rparr>"
    by (rule Food_cases)
  from p have "(name, p) \<in> set valid_food_items" by (rule map_of_SomeD)
  then have "fst (name, p) \<in> fst ` set valid_food_items" by (rule imageI)
  with f show ?thesis by (simp add: food_inv_def)
qed

lemma update_priced:
  "list_all (\<lambda>(t, p). map_of tbl t = Some p) al \<Longrightarrow> map_of tbl k = Some v \<Longrightarrow>
   list_all (\<lambda>(t, p). map_of tbl t = Some p) (AList.update k v al)"
  by (induction al) auto

lemma food_step_priced: "food_priced f \<Longrightarrow> food_priced (food_step f x)"
  by (cases x) (auto simp: food_priced_def add_topping_def update_priced split: option.splits)

lemma run_food_priced: "food_priced f \<Longrightarrow> food_priced (run_food ops f)"
  unfolding run_food_def
  by (induction ops arbitrary: f) (simp_all add: food_step_priced)

lemma Food_priced: "Food name = Inr f \<Longrightarrow> food_priced f"
  by (erule Food_cases) (simp add: food_priced_def)

lemma food_step_fixed:
  "food_item (food_step f x) = food_item f \<and> base_price (food_step f x) = base_price f"
  by (cases x) (auto simp: add_topping_def split: option.splits)

lemma run_food_fixed:
  "food_item (run_food ops f) = food_item f \<and> base_price (run_food ops f) = base_price f"
  unfolding run_food_def
  by (induction ops arbitrary: f) (simp_all add: food_step_fixed)

lemma update_same:
  "list_all (\<lambda>(t, p). map_of tbl t = Some p) al \<Longrightarrow> k \<in> fst ` set al \<Longrightarrow>
   map_of tbl k = Some v \<Longrightarrow> AList.update k v al = al"
  by (induction al) auto

lemma stored_in_table:
  "list_all (\<lambda>(t, p). map_of tbl t = Some p) al \<Longrightarrow> k \<in> fst ` set al \<Longrightarrow>
   \<exists>v. map_of tbl k = Some v"
  by (induction al) auto

lemma re_add_topping:
  assumes "food_priced f" "t \<in> set (get_toppings f)"
  shows "add_topping t f = (Inr (), f)"
proof -
  from assms have al: "list_all (\<lambda>(t, p). map_of valid_toppings t = Some p) (toppings f)"
    and k: "t \<in> fst ` set (toppings f)"
    by (simp_all add: food_priced_def get_toppings_def)
  from stored_in_table [OF al k] obtain v where v: "map_of valid_toppings t = Some v" ..
  from update_same [OF al k v] v show ?thesis
    by (simp add: add_topping_def)
qed

section \<open>The order and the prices of the stored toppings\<close>

lemma run_food_Cons: "run_food (x # ops) f = run_food ops (food_step f x)"
  by (simp add: run_food_def)

lemma get_toppings_add:
  "get_toppings (snd (add_topping t f)) =
     (if t \<in> set (map fst valid_toppings) then insert_new (get_toppings f) t
      else get_toppings f)"
proof (cases "map_of valid_toppings t")
  case None
  then have "t \<notin> fst ` set valid_toppings"
    by (rule iffD1 [OF map_of_eq_None_iff])
  with None show ?thesis
    by (simp add: add_topping_def)
next
  case (Some p)
  then have "(t, p) \<in> set valid_toppings"
    by (rule map_of_SomeD)
  then have "fst (t, p) \<in> fst ` set valid_toppings"
    by (rule imageI)
  with Some show ?thesis
    by (simp add: add_topping_def get_toppings_def insert_new_def update_keys)
qed

lemma get_toppings_run:
  "get_toppings (run_food ops f) = foldl insert_new (get_toppings f) (added_toppings ops)"
proof (induction ops arbitrary: f)
  case Nil
  show ?case by (simp add: run_food_def)
next
  case (Cons x ops)
  show ?case
    by (cases x) (simp_all add: run_food_Cons Cons.IH get_toppings_add)
qed

lemma stored_prices:
  "list_all (\<lambda>(t, p). map_of tbl t = Some p) al \<Longrightarrow>
   map (map_of tbl) (map fst al) = map Some (map snd al)"
  by (induction al) auto

section \<open>Listing the flavors\<close>

lemma listing_exists: "\<exists>xs. get_flavors d xs"
proof -
  have "\<exists>xs. set xs = fset (flavors d) \<and> distinct xs"
    by (rule finite_distinct_list) (rule finite_fset)
  then obtain xs where xs: "set xs = fset (flavors d)" "distinct xs"
    by (elim exE conjE)
  from xs(1) have "fset (fset_of_list xs) = fset (flavors d)"
    by (simp only: fset_of_list.rep_eq)
  then have "fset_of_list xs = flavors d"
    by (simp only: fset_inject)
  with xs(2) have "get_flavors d xs"
    by (simp add: get_flavors_def)
  then show ?thesis ..
qed

lemma listing_elems: "get_flavors d xs \<Longrightarrow> set xs = fset (flavors d)"
  unfolding get_flavors_def by (metis fset_of_list.rep_eq)

section \<open>Removing from a list\<close>

lemma list_pop_in_range:
  "0 \<le> i \<Longrightarrow> i < int (length xs) \<Longrightarrow>
   list_pop i xs = Inr (take (nat i) xs @ drop (nat i + 1) xs)"
  by (auto simp: list_pop_def Let_def)

lemma remove_item_ok:
  "0 \<le> i \<Longrightarrow> i < int (length (items ord)) \<Longrightarrow>
   remove_item i ord =
     (Inr (), ord\<lparr>items := take (nat i) (items ord) @ drop (nat i + 1) (items ord)\<rparr>)"
  by (simp add: remove_item_def list_pop_in_range)

lemma remove_item_fail:
  "i < 0 \<or> int (length (items ord)) \<le> i \<Longrightarrow>
   remove_item i ord = (Inl (IndexError ''Invalid index.''), ord)"
  by (simp add: remove_item_def)

lemma nth_after_pop:
  assumes "i < length xs"
  shows "\<forall>j < i. (take i xs @ drop (i + 1) xs) ! j = xs ! j"
    and "\<forall>j. i \<le> j \<and> j < length xs - 1 \<longrightarrow> (take i xs @ drop (i + 1) xs) ! j = xs ! (j + 1)"
  using assms by (auto simp: nth_append min_def)

section \<open>Food.get_price\<close>

text \<open>
  C1, as the specification states it, fails: \<^verbatim>\<open>get_price\<close> adds binary floats, not
  decimals. \<^verbatim>\<open>Food("Hotdog")\<close> after \<^verbatim>\<open>add_topping("Nacho Cheese")\<close> has, on either
  interpreter, the price \<open>1463669878895411 / 2 ^ 49\<close>, which Python prints as
  \<^verbatim>\<open>2.5999999999999996\<close>: it is not the decimal 2.60 that exact arithmetic gives for
  2.30 + 0.30, and not even the float that the literal \<^verbatim>\<open>2.60\<close> denotes.
\<close>

theorem C1_exact_decimal_counterexample:
  "Food ''Hotdog'' = Inr hotdog \<and>
   add_topping ''Nacho Cheese'' hotdog = (Inr (), hotdog_nacho) \<and>
   get_price CPython_3_11 hotdog_nacho = Finite 1463669878895411 (- 49) \<and>
   get_price CPython_3_12 hotdog_nacho = Finite 1463669878895411 (- 49) \<and>
   literal 260 = Finite 5854679515581645 (- 51) \<and>
   get_price CPython_3_11 hotdog_nacho \<noteq> literal 260 \<and>
   get_price CPython_3_12 hotdog_nacho \<noteq> literal 260 \<and>
   \<not> is_decimal (get_price CPython_3_11 hotdog_nacho) 260 \<and>
   \<not> is_decimal (get_price CPython_3_12 hotdog_nacho) 260"
  by (simp add: test_objects price_hotdog_nacho literal_260)

text \<open>
  C1, amended: on either interpreter, \<^verbatim>\<open>get_price()\<close> of a food made by the constructor
  and any sequence of calls is the float addition of the table's price of the item and
  of the built-in \<^verbatim>\<open>sum\<close> of the table's prices of the stored toppings; the stored
  toppings are the valid toppings that were added, each once, in the order of their
  first insertion. For \<^verbatim>\<open>Food("Hotdog")\<close> the result is the float that the literal
  \<^verbatim>\<open>2.30\<close> denotes, and after \<^verbatim>\<open>add_topping("Chili")\<close> it is the float that the literal
  \<^verbatim>\<open>2.90\<close> denotes.
\<close>

theorem C1_get_price_float:
  "(Food name = Inr f0 \<longrightarrow>
      get_toppings (run_food ops f0) = first_insertions (added_toppings ops) \<and>
      (\<exists>p ps. map_of valid_food_items name = Some p \<and>
         map (map_of valid_toppings) (get_toppings (run_food ops f0)) = map Some ps \<and>
         get_price v (run_food ops f0) = fadd p (py_sum v ps))) \<and>
   Food ''Hotdog'' = Inr hotdog \<and> get_price v hotdog = literal 230 \<and>
   add_topping ''Chili'' hotdog = (Inr (), hotdog_chili) \<and> get_price v hotdog_chili = literal 290"
proof (intro conjI impI)
  assume a: "Food name = Inr f0"
  then obtain p where p: "map_of valid_food_items name = Some p"
    and f0: "f0 = \<lparr>food_item = name, base_price = p, toppings = []\<rparr>"
    by (rule Food_cases)
  from f0 have "get_toppings f0 = []"
    by (simp add: get_toppings_def)
  then show "get_toppings (run_food ops f0) = first_insertions (added_toppings ops)"
    by (simp add: get_toppings_run first_insertions_def)
  from a have "food_priced f0"
    by (rule Food_priced)
  then have "food_priced (run_food ops f0)"
    by (rule run_food_priced)
  then have "list_all (\<lambda>(t, p). map_of valid_toppings t = Some p) (toppings (run_food ops f0))"
    by (simp add: food_priced_def)
  then have st: "map (map_of valid_toppings) (get_toppings (run_food ops f0)) =
      map Some (map snd (toppings (run_food ops f0)))"
    unfolding get_toppings_def by (rule stored_prices)
  from f0 have bp: "base_price (run_food ops f0) = p"
    by (simp add: run_food_fixed)
  have "get_price v (run_food ops f0) = fadd p (py_sum v (map snd (toppings (run_food ops f0))))"
    by (simp add: get_price_def bp)
  with p st show "\<exists>p ps. map_of valid_food_items name = Some p \<and>
         map (map_of valid_toppings) (get_toppings (run_food ops f0)) = map Some ps \<and>
         get_price v (run_food ops f0) = fadd p (py_sum v ps)"
    by blast
qed (simp_all only: test_objects price_hotdog price_hotdog_chili)

theorem C1_get_price_float_witness:
  "Food ''Hotdog'' = Inr hotdog \<and>
   get_toppings (run_food [AddTopping ''Chili'', GetPrice, AddTopping ''Caramel Sauce'',
       AddTopping ''Gravel'', AddTopping ''Chili'', AddTopping ''Nacho Cheese''] hotdog) =
     [''Chili'', ''Caramel Sauce'', ''Nacho Cheese''] \<and>
   get_price CPython_3_12 (run_food [AddTopping ''Chili'', GetPrice, AddTopping ''Caramel Sauce'',
       AddTopping ''Gravel'', AddTopping ''Chili'', AddTopping ''Nacho Cheese''] hotdog) =
     fadd (literal 230) (py_sum CPython_3_12 [literal 60, literal 50, literal 30]) \<and>
   get_price CPython_3_12 hotdog_chili = literal 290"
proof -
  let ?ops = "[AddTopping ''Chili'', GetPrice, AddTopping ''Caramel Sauce'',
       AddTopping ''Gravel'', AddTopping ''Chili'', AddTopping ''Nacho Cheese'']"
  have h: "Food ''Hotdog'' = Inr hotdog"
    by (simp add: Food_def valid_food_items_def hotdog_def)
  have o: "first_insertions (added_toppings ?ops) = [''Chili'', ''Caramel Sauce'', ''Nacho Cheese'']"
    by (simp add: first_insertions_def insert_new_def valid_toppings_def)
  note c = C1_get_price_float [of "''Hotdog''" hotdog ?ops CPython_3_12]
  from c h o have t: "get_toppings (run_food ?ops hotdog) =
      [''Chili'', ''Caramel Sauce'', ''Nacho Cheese'']"
    by simp
  from c h obtain p ps where p: "map_of valid_food_items ''Hotdog'' = Some p"
    and ps: "map (map_of valid_toppings) (get_toppings (run_food ?ops hotdog)) = map Some ps"
    and g: "get_price CPython_3_12 (run_food ?ops hotdog) = fadd p (py_sum CPython_3_12 ps)"
    by blast
  from p have p': "p = literal 230"
    by (simp add: valid_food_items_def)
  from ps have "map Some ps = map Some [literal 60, literal 50, literal 30]"
    by (simp add: t valid_toppings_def)
  then have ps': "ps = [literal 60, literal 50, literal 30]"
    by (simp only: inj_map_eq_map [OF inj_Some])
  from c h t g show ?thesis
    by (simp add: p' ps')
qed

section \<open>Order.get_total\<close>

text \<open>
  C2, as the specification states it, fails: \<^verbatim>\<open>get_total\<close> adds binary floats one after
  the other, and the result is not the sum of the prices. An order of ten
  \<^verbatim>\<open>Food("Tater Tots")\<close> has, on either interpreter, the total
  \<open>4785074604081151 / 2 ^ 48\<close>, which Python prints as \<^verbatim>\<open>16.999999999999996\<close>, where ten
  times 1.70 are 17.00 and the literal \<^verbatim>\<open>17.00\<close> is the float 17. And the total depends on
  the order of the items, which a sum does not: two \<^verbatim>\<open>Food("Hotdog")\<close> and then a
  \<^verbatim>\<open>Food("Nacho Chips")\<close> total 6.5, the same three with the Nacho Chips first total
  \<open>7318349394477055 / 2 ^ 50\<close>, printed as \<^verbatim>\<open>6.499999999999999\<close>.
\<close>

theorem C2_decimal_sum_counterexample:
  "Food ''Tater Tots'' = Inr tater_tots \<and>
   get_total CPython_3_11 \<lparr>items = replicate 10 (FoodItem tater_tots)\<rparr> =
     Finite 4785074604081151 (- 48) \<and>
   get_total CPython_3_12 \<lparr>items = replicate 10 (FoodItem tater_tots)\<rparr> =
     Finite 4785074604081151 (- 48) \<and>
   literal 1700 = Finite 17 0 \<and>
   \<not> is_decimal (Finite 4785074604081151 (- 48)) 1700 \<and>
   Food ''Hotdog'' = Inr hotdog \<and> Food ''Nacho Chips'' = Inr nacho_chips \<and>
   get_total CPython_3_11 \<lparr>items = [FoodItem hotdog, FoodItem hotdog, FoodItem nacho_chips]\<rparr> \<noteq>
     get_total CPython_3_11 \<lparr>items = [FoodItem nacho_chips, FoodItem hotdog, FoodItem hotdog]\<rparr> \<and>
   get_total CPython_3_12 \<lparr>items = [FoodItem hotdog, FoodItem hotdog, FoodItem nacho_chips]\<rparr> \<noteq>
     get_total CPython_3_12 \<lparr>items = [FoodItem nacho_chips, FoodItem hotdog, FoodItem hotdog]\<rparr>"
  by (simp add: test_objects ten_tater_tots total_order_matters)

text \<open>
  C2, amended: on either interpreter, \<^verbatim>\<open>get_total()\<close> is 0.0 for the empty order, and
  an item added to an order changes the total by one float addition, rounded to the
  nearest float: of 5.00 for a Drink and of the item's \<^verbatim>\<open>get_price()\<close> for a Food; any
  other object leaves the total as it is. For the order of one Drink with the base
  "water" and one \<^verbatim>\<open>Food("Hotdog")\<close> with the topping "Chili", in either order, the
  total is the float that the literal \<^verbatim>\<open>7.90\<close> denotes.
\<close>

theorem C2_get_total_float:
  "get_total v Order = Finite 0 0 \<and>
   get_total v (snd (add_item (DrinkItem d) ord)) = fadd (get_total v ord) (literal 500) \<and>
   get_total v (snd (add_item (FoodItem f) ord)) = fadd (get_total v ord) (get_price v f) \<and>
   get_total v (snd (add_item (OtherItem x) ord)) = get_total v ord \<and>
   add_base ''water'' Drink = (Inr (), water) \<and>
   Food ''Hotdog'' = Inr hotdog \<and>
   add_topping ''Chili'' hotdog = (Inr (), hotdog_chili) \<and>
   snd (add_item (FoodItem hotdog_chili) (snd (add_item (DrinkItem water) Order))) =
     \<lparr>items = [DrinkItem water, FoodItem hotdog_chili]\<rparr> \<and>
   get_total v \<lparr>items = [DrinkItem water, FoodItem hotdog_chili]\<rparr> = literal 790 \<and>
   get_total v \<lparr>items = [FoodItem hotdog_chili, DrinkItem water]\<rparr> = literal 790"
proof (intro conjI)
  show "get_total v Order = Finite 0 0"
    by (simp add: get_total_def Order_def literal_zero)
  show "get_total v (snd (add_item (DrinkItem d) ord)) = fadd (get_total v ord) (literal 500)"
    by (simp add: get_total_def add_item_def total_loop_append_drink)
  show "get_total v (snd (add_item (FoodItem f) ord)) = fadd (get_total v ord) (get_price v f)"
    by (simp add: get_total_def add_item_def total_loop_append_food)
  show "get_total v (snd (add_item (OtherItem x) ord)) = get_total v ord"
    by (simp add: get_total_def add_item_def total_loop_append_other)
  show "snd (add_item (FoodItem hotdog_chili) (snd (add_item (DrinkItem water) Order))) =
     \<lparr>items = [DrinkItem water, FoodItem hotdog_chili]\<rparr>"
    by (simp add: add_item_def Order_def)
qed (simp_all only: test_objects total_example)

section \<open>Drink.add_flavor\<close>

text \<open>
  C3: the flavors are lemon, cherry, strawberry, mint, blueberry and lime. For a flavor
  outside them \<^verbatim>\<open>add_flavor\<close> raises the ValueError "Invalid flavor: ..." (the
  specification's InvalidArgument); for a valid flavor that the drink has already, it
  raises the ValueError "Flavor '...' has already been added." (the specification's
  DuplicateEntry); in both cases the drink stays as it was. Otherwise the call returns,
  and every list that \<^verbatim>\<open>get_flavors()\<close> may then return, of which there is one,
  contains the flavor.
\<close>

theorem C3_add_flavor:
  "set valid_flavors = {''lemon'', ''cherry'', ''strawberry'', ''mint'', ''blueberry'', ''lime''} \<and>
   (f \<notin> set valid_flavors \<longrightarrow>
      add_flavor f d = (Inl (ValueError (''Invalid flavor: '' @ f)), d)) \<and>
   (f \<in> set valid_flavors \<and> f |\<in>| flavors d \<longrightarrow>
      add_flavor f d =
        (Inl (ValueError (''Flavor '' @ [CHR 0x27] @ f @ [CHR 0x27] @ '' has already been added.'')), d)) \<and>
   (f \<in> set valid_flavors \<and> f |\<notin>| flavors d \<longrightarrow>
      fst (add_flavor f d) = Inr () \<and>
      (\<exists>xs. get_flavors (snd (add_flavor f d)) xs) \<and>
      (\<forall>xs. get_flavors (snd (add_flavor f d)) xs \<longrightarrow> f \<in> set xs))"
proof (intro conjI impI)
  show "set valid_flavors = {''lemon'', ''cherry'', ''strawberry'', ''mint'', ''blueberry'', ''lime''}"
    by (simp add: valid_flavors_def)
next
  assume "f \<notin> set valid_flavors"
  then show "add_flavor f d = (Inl (ValueError (''Invalid flavor: '' @ f)), d)"
    by (simp add: add_flavor_def)
next
  assume "f \<in> set valid_flavors \<and> f |\<in>| flavors d"
  then show "add_flavor f d =
      (Inl (ValueError (''Flavor '' @ [CHR 0x27] @ f @ [CHR 0x27] @ '' has already been added.'')), d)"
    by (simp add: add_flavor_def)
next
  assume a: "f \<in> set valid_flavors \<and> f |\<notin>| flavors d"
  then show "fst (add_flavor f d) = Inr ()"
    by (simp add: add_flavor_def)
  show "\<exists>xs. get_flavors (snd (add_flavor f d)) xs"
    by (rule listing_exists)
  show "\<forall>xs. get_flavors (snd (add_flavor f d)) xs \<longrightarrow> f \<in> set xs"
  proof (intro allI impI)
    fix xs
    assume "get_flavors (snd (add_flavor f d)) xs"
    then have "set xs = fset (flavors (snd (add_flavor f d)))"
      by (rule listing_elems)
    with a show "f \<in> set xs"
      by (simp add: add_flavor_def)
  qed
qed

theorem C3_add_flavor_witness:
  "add_flavor ''vanilla'' Drink = (Inl (ValueError ''Invalid flavor: vanilla''), Drink) \<and>
   add_flavor ''lemon'' Drink = (Inr (), \<lparr>base = None, flavors = {|''lemon''|}\<rparr>) \<and>
   get_flavors (snd (add_flavor ''lemon'' Drink)) [''lemon''] \<and>
   add_flavor ''lemon'' \<lparr>base = None, flavors = {|''lemon''|}\<rparr> =
     (Inl (ValueError ''Flavor 'lemon' has already been added.''),
      \<lparr>base = None, flavors = {|''lemon''|}\<rparr>)"
  using C3_add_flavor [of "''vanilla''" Drink] C3_add_flavor [of "''lemon''" Drink]
    C3_add_flavor [of "''lemon''" "\<lparr>base = None, flavors = {|''lemon''|}\<rparr>"]
  by (simp add: valid_flavors_def Drink_def add_flavor_def get_flavors_def)

section \<open>Order.remove_item\<close>

text \<open>
  C4: with \<open>n\<close> items in the order, \<^verbatim>\<open>remove_item(i)\<close> raises the IndexError "Invalid
  index." (the specification's OutOfRange) exactly when \<open>i < 0\<close> or \<open>n \<le> i\<close>, so always on
  the empty order, and then leaves the order as it was. Otherwise it returns: the items
  before position \<open>i\<close> stay, every later item moves down by one position, and
  \<^verbatim>\<open>get_num_items()\<close> is one less.
\<close>

theorem C4_remove_item:
  "(fst (remove_item i ord) = Inl (IndexError ''Invalid index.'') \<longleftrightarrow>
      i < 0 \<or> get_num_items ord \<le> i) \<and>
   (i < 0 \<or> get_num_items ord \<le> i \<longrightarrow> snd (remove_item i ord) = ord) \<and>
   fst (remove_item i Order) = Inl (IndexError ''Invalid index.'') \<and>
   (0 \<le> i \<and> i < get_num_items ord \<longrightarrow>
      fst (remove_item i ord) = Inr () \<and>
      get_num_items (snd (remove_item i ord)) = get_num_items ord - 1 \<and>
      (\<forall>j < nat i. items (snd (remove_item i ord)) ! j = items ord ! j) \<and>
      (\<forall>j. nat i \<le> j \<and> j < length (items ord) - 1 \<longrightarrow>
           items (snd (remove_item i ord)) ! j = items ord ! (j + 1)))"
proof (intro conjI impI)
  show "fst (remove_item i ord) = Inl (IndexError ''Invalid index.'') \<longleftrightarrow>
      i < 0 \<or> get_num_items ord \<le> i"
  proof (cases "i < 0 \<or> int (length (items ord)) \<le> i")
    case True
    then show ?thesis by (simp add: remove_item_fail get_num_items_def)
  next
    case False
    then show ?thesis by (simp add: remove_item_ok get_num_items_def)
  qed
next
  assume "i < 0 \<or> get_num_items ord \<le> i"
  then show "snd (remove_item i ord) = ord"
    by (simp add: remove_item_fail get_num_items_def)
next
  show "fst (remove_item i Order) = Inl (IndexError ''Invalid index.'')"
    by (cases "i < 0") (simp_all add: remove_item_def Order_def)
next
  assume a: "0 \<le> i \<and> i < get_num_items ord"
  then have r: "remove_item i ord =
      (Inr (), ord\<lparr>items := take (nat i) (items ord) @ drop (nat i + 1) (items ord)\<rparr>)"
    by (simp add: remove_item_ok get_num_items_def)
  from a have lt: "nat i < length (items ord)"
    by (auto simp: get_num_items_def)
  show "fst (remove_item i ord) = Inr ()"
    by (simp add: r)
  from lt show "get_num_items (snd (remove_item i ord)) = get_num_items ord - 1"
    by (simp add: r get_num_items_def min_def)
  from nth_after_pop(1) [OF lt]
  show "\<forall>j < nat i. items (snd (remove_item i ord)) ! j = items ord ! j"
    by (simp add: r)
  from nth_after_pop(2) [OF lt]
  show "\<forall>j. nat i \<le> j \<and> j < length (items ord) - 1 \<longrightarrow>
           items (snd (remove_item i ord)) ! j = items ord ! (j + 1)"
    by (simp add: r)
qed

theorem C4_remove_item_witness:
  "remove_item 1 \<lparr>items = [OtherItem (1::nat), OtherItem 2, OtherItem 3]\<rparr> =
     (Inr (), \<lparr>items = [OtherItem 1, OtherItem 3]\<rparr>) \<and>
   fst (remove_item 3 \<lparr>items = [OtherItem (1::nat), OtherItem 2, OtherItem 3]\<rparr>) =
     Inl (IndexError ''Invalid index.'') \<and>
   fst (remove_item (- 1) \<lparr>items = [OtherItem (1::nat), OtherItem 2, OtherItem 3]\<rparr>) =
     Inl (IndexError ''Invalid index.'') \<and>
   fst (remove_item 0 (Order :: nat order)) = Inl (IndexError ''Invalid index.'')"
  using C4_remove_item [of 1 "\<lparr>items = [OtherItem (1::nat), OtherItem 2, OtherItem 3]\<rparr>"]
    C4_remove_item [of 3 "\<lparr>items = [OtherItem (1::nat), OtherItem 2, OtherItem 3]\<rparr>"]
    C4_remove_item [of "- 1" "\<lparr>items = [OtherItem (1::nat), OtherItem 2, OtherItem 3]\<rparr>"]
  by (simp add: get_num_items_def remove_item_def list_pop_def Order_def)

section \<open>The constructor of Food\<close>

text \<open>
  C5: \<^verbatim>\<open>Food(name)\<close> raises the ValueError "Invalid food item: ..." (the
  specification's InvalidArgument) for a name outside the price table. For a name of
  the table it returns a food of that name with the table's price as its base price and
  without toppings, and no sequence of calls on the food changes its item or its base
  price.
\<close>

theorem C5_Food_constructor:
  "(name \<notin> {''Hotdog'', ''Corndog'', ''Ice Cream'', ''Onion Rings'', ''French Fries'',
        ''Tater Tots'', ''Nacho Chips''} \<longrightarrow>
      Food name = Inl (ValueError (''Invalid food item: '' @ name))) \<and>
   ((name, p) \<in> {(''Hotdog'', literal 230), (''Corndog'', literal 200),
        (''Ice Cream'', literal 300), (''Onion Rings'', literal 175),
        (''French Fries'', literal 150), (''Tater Tots'', literal 170),
        (''Nacho Chips'', literal 190)} \<longrightarrow>
      Food name = Inr \<lparr>food_item = name, base_price = p, toppings = []\<rparr>) \<and>
   (Food name = Inr f \<longrightarrow>
      get_toppings f = [] \<and>
      map_of valid_food_items name = Some (base_price f) \<and>
      food_item (run_food ops f) = name \<and>
      base_price (run_food ops f) = base_price f)"
proof (intro conjI impI)
  assume "name \<notin> {''Hotdog'', ''Corndog'', ''Ice Cream'', ''Onion Rings'', ''French Fries'',
        ''Tater Tots'', ''Nacho Chips''}"
  then show "Food name = Inl (ValueError (''Invalid food item: '' @ name))"
    by (simp add: Food_def valid_food_items_def)
next
  assume "(name, p) \<in> {(''Hotdog'', literal 230), (''Corndog'', literal 200),
        (''Ice Cream'', literal 300), (''Onion Rings'', literal 175),
        (''French Fries'', literal 150), (''Tater Tots'', literal 170),
        (''Nacho Chips'', literal 190)}"
  then show "Food name = Inr \<lparr>food_item = name, base_price = p, toppings = []\<rparr>"
    by (auto simp: Food_def valid_food_items_def)
next
  assume a: "Food name = Inr f"
  then obtain q where q: "map_of valid_food_items name = Some q"
    and f: "f = \<lparr>food_item = name, base_price = q, toppings = []\<rparr>"
    by (rule Food_cases)
  from f show "get_toppings f = []"
    by (simp add: get_toppings_def)
  from q f show "map_of valid_food_items name = Some (base_price f)"
    by simp
  from f show "food_item (run_food ops f) = name"
    by (simp add: run_food_fixed)
  show "base_price (run_food ops f) = base_price f"
    by (simp add: run_food_fixed)
qed

theorem C5_Food_constructor_witness:
  "Food ''InvalidItem'' = Inl (ValueError ''Invalid food item: InvalidItem'') \<and>
   Food ''Corndog'' = Inr \<lparr>food_item = ''Corndog'', base_price = literal 200, toppings = []\<rparr> \<and>
   base_price (run_food [AddTopping ''Chili'', GetPrice, AddTopping ''Gravel'']
     \<lparr>food_item = ''Corndog'', base_price = literal 200, toppings = []\<rparr>) = literal 200"
proof -
  have c: "Food ''Corndog'' = Inr \<lparr>food_item = ''Corndog'', base_price = literal 200, toppings = []\<rparr>"
    by (simp add: Food_def valid_food_items_def)
  from c C5_Food_constructor [of "''InvalidItem''"]
    C5_Food_constructor [of "''Corndog''" "literal 200"
      "\<lparr>food_item = ''Corndog'', base_price = literal 200, toppings = []\<rparr>"
      "[AddTopping ''Chili'', GetPrice, AddTopping ''Gravel'']"]
  show ?thesis by simp
qed

section \<open>Drink.add_base\<close>

text \<open>
  C6: for a base outside water, sbrite, pokeacola, Mr. Salt, hill fog and leaf wine,
  \<^verbatim>\<open>add_base\<close> raises the ValueError "Invalid base: ..." (the specification's
  InvalidArgument) and leaves the drink as it was: its base, set or not, and its flavors.
\<close>

theorem C6_add_base_invalid:
  "b \<notin> {''water'', ''sbrite'', ''pokeacola'', ''Mr. Salt'', ''hill fog'', ''leaf wine''} \<Longrightarrow>
   add_base b d = (Inl (ValueError (''Invalid base: '' @ b)), d) \<and>
   get_base (snd (add_base b d)) = get_base d \<and>
   flavors (snd (add_base b d)) = flavors d"
  by (simp add: add_base_def valid_bases_def)

theorem C6_add_base_invalid_witness:
  "add_base ''invalid_base'' water = (Inl (ValueError ''Invalid base: invalid_base''), water) \<and>
   get_base (snd (add_base ''invalid_base'' water)) = Some ''water'' \<and>
   get_base (snd (add_base ''invalid_base'' Drink)) = None"
  using C6_add_base_invalid [of "''invalid_base''" water]
    C6_add_base_invalid [of "''invalid_base''" Drink]
  by (simp add: get_base_def water_def Drink_def)

text \<open>
  C7: a new drink has no base (\<^verbatim>\<open>get_base()\<close> returns \<^verbatim>\<open>None\<close>). For a base of the
  valid ones \<^verbatim>\<open>add_base\<close> returns, whatever the drink's base was before, and
  \<^verbatim>\<open>get_base()\<close> then returns that base; the flavors stay.
\<close>

theorem C7_add_base_valid:
  "get_base Drink = None \<and>
   (b \<in> {''water'', ''sbrite'', ''pokeacola'', ''Mr. Salt'', ''hill fog'', ''leaf wine''} \<longrightarrow>
      fst (add_base b d) = Inr () \<and>
      get_base (snd (add_base b d)) = Some b \<and>
      flavors (snd (add_base b d)) = flavors d)"
  by (auto simp: add_base_def valid_bases_def get_base_def Drink_def)

theorem C7_add_base_valid_witness:
  "fst (add_base ''sbrite'' water) = Inr () \<and>
   get_base water = Some ''water'' \<and>
   get_base (snd (add_base ''sbrite'' water)) = Some ''sbrite'' \<and>
   get_base (snd (add_base ''water'' Drink)) = Some ''water''"
  using C7_add_base_valid [of "''sbrite''" water] C7_add_base_valid [of "''water''" Drink]
  by (simp add: get_base_def water_def)

section \<open>Food.add_topping on a stored topping\<close>

text \<open>
  C8: on a food made by the constructor and any sequence of calls, \<^verbatim>\<open>add_topping(t)\<close>
  for a topping that is stored already returns and leaves the food as it was: the same
  toppings in the same order with the same prices, and the same \<^verbatim>\<open>get_price()\<close> on
  either interpreter. A
  Drink differs: \<^verbatim>\<open>add_flavor\<close> raises for a flavor that the drink has already.
\<close>

theorem C8_add_topping_idempotent:
  assumes "Food name = Inr f0"
    and "t \<in> set (get_toppings (run_food ops f0))"
  shows "add_topping t (run_food ops f0) = (Inr (), run_food ops f0) \<and>
    get_toppings (snd (add_topping t (run_food ops f0))) = get_toppings (run_food ops f0) \<and>
    toppings (snd (add_topping t (run_food ops f0))) = toppings (run_food ops f0) \<and>
    get_price v (snd (add_topping t (run_food ops f0))) = get_price v (run_food ops f0) \<and>
    map_of valid_toppings t = map_of (toppings (run_food ops f0)) t \<and>
    (fl \<in> set valid_flavors \<and> fl |\<in>| flavors d \<longrightarrow>
       fst (add_flavor fl d) =
         Inl (ValueError (''Flavor '' @ [CHR 0x27] @ fl @ [CHR 0x27] @ '' has already been added.'')))"
proof -
  from assms(1) have "food_priced f0"
    by (rule Food_priced)
  then have pr: "food_priced (run_food ops f0)"
    by (rule run_food_priced)
  from pr assms(2) have same: "add_topping t (run_food ops f0) = (Inr (), run_food ops f0)"
    by (rule re_add_topping)
  have tbl: "map_of valid_toppings t = map_of (toppings (run_food ops f0)) t"
  proof (cases "map_of valid_toppings t")
    case None
    with same show ?thesis by (simp add: add_topping_def)
  next
    case (Some v)
    with same have "AList.update t v (toppings (run_food ops f0)) = toppings (run_food ops f0)"
      by (simp add: add_topping_def) (metis food.select_convs(3) food.surjective food.update_convs(3))
    then have "map_of (toppings (run_food ops f0)) t = Some v"
      by (metis update_conv' fun_upd_same)
    with Some show ?thesis by simp
  qed
  from same tbl show ?thesis
    by (simp add: add_flavor_def)
qed

theorem C8_add_topping_idempotent_witness:
  "add_topping ''Chili'' hotdog_chili = (Inr (), hotdog_chili) \<and>
   get_price CPython_3_12 (snd (add_topping ''Chili'' hotdog_chili)) =
     get_price CPython_3_12 hotdog_chili \<and>
   fst (add_flavor ''lemon'' \<lparr>base = None, flavors = {|''lemon''|}\<rparr>) =
     Inl (ValueError ''Flavor 'lemon' has already been added.'')"
proof -
  have h: "Food ''Hotdog'' = Inr hotdog"
    by (simp add: Food_def valid_food_items_def hotdog_def)
  have r: "run_food [AddTopping ''Chili''] hotdog = hotdog_chili"
    by (simp add: run_food_def add_topping_def valid_toppings_def hotdog_def hotdog_chili_def)
  have t: "''Chili'' \<in> set (get_toppings (run_food [AddTopping ''Chili''] hotdog))"
    by (simp add: r get_toppings_def hotdog_chili_def)
  from C8_add_topping_idempotent [OF h t, of CPython_3_12 "''lemon''"
      "\<lparr>base = None, flavors = {|''lemon''|}\<rparr>"]
  show ?thesis by (simp add: r valid_flavors_def)
qed

section \<open>The invariants of Drink and Food\<close>

text \<open>
  C9: a new drink has the invariant of the data model (its base is unset or one of the
  valid bases, its flavors are among the valid flavors), every sequence of calls keeps
  it, and every list that \<^verbatim>\<open>get_flavors()\<close> may return is free of duplicates and within
  the valid flavors. A food from the constructor has its invariant (its item is an entry
  of the menu, every key of its toppings is an entry of the topping table), and every
  sequence of calls keeps it.
\<close>

theorem C9_invariants_preserved:
  "drink_inv Drink \<and>
   (drink_inv d \<longrightarrow>
      drink_inv (run_drink ops d) \<and>
      (\<forall>xs. get_flavors (run_drink ops d) xs \<longrightarrow> distinct xs \<and> set xs \<subseteq> set valid_flavors)) \<and>
   (Food name = Inr f \<longrightarrow> food_inv f) \<and>
   (food_inv g \<longrightarrow> food_inv (run_food fops g))"
proof (intro conjI impI allI)
  show "drink_inv Drink"
    by (simp add: drink_inv_def Drink_def)
next
  assume "drink_inv d"
  then show "drink_inv (run_drink ops d)"
    by (rule run_drink_inv)
next
  fix xs
  assume "drink_inv d" and l: "get_flavors (run_drink ops d) xs"
  from l show "distinct xs"
    by (simp add: get_flavors_def)
  from \<open>drink_inv d\<close> have "drink_inv (run_drink ops d)"
    by (rule run_drink_inv)
  with listing_elems [OF l] show "set xs \<subseteq> set valid_flavors"
    by (simp add: drink_inv_def)
next
  assume "Food name = Inr f"
  then show "food_inv f"
    by (rule Food_inv)
next
  assume "food_inv g"
  then show "food_inv (run_food fops g)"
    by (rule run_food_inv)
qed

theorem C9_invariants_preserved_witness:
  "run_drink [AddBase ''water'', AddFlavor ''lemon'', AddBase ''mud'', AddFlavor ''lemon'',
       GetFlavors, AddFlavor ''salt''] Drink = \<lparr>base = Some ''water'', flavors = {|''lemon''|}\<rparr> \<and>
   drink_inv \<lparr>base = Some ''water'', flavors = {|''lemon''|}\<rparr> \<and>
   food_inv hotdog \<and>
   food_inv (run_food [AddTopping ''Chili'', AddTopping ''Gravel'', AddTopping ''Chili''] hotdog)"
proof -
  have h: "Food ''Hotdog'' = Inr hotdog"
    by (simp add: Food_def valid_food_items_def hotdog_def)
  have r: "run_drink [AddBase ''water'', AddFlavor ''lemon'', AddBase ''mud'', AddFlavor ''lemon'',
       GetFlavors, AddFlavor ''salt''] Drink = \<lparr>base = Some ''water'', flavors = {|''lemon''|}\<rparr>"
    by (simp add: run_drink_def add_base_def add_flavor_def valid_bases_def valid_flavors_def
        Drink_def)
  have i: "drink_inv Drink"
    by (simp add: drink_inv_def Drink_def)
  from h i r C9_invariants_preserved [of Drink "[AddBase ''water'', AddFlavor ''lemon'',
       AddBase ''mud'', AddFlavor ''lemon'', GetFlavors, AddFlavor ''salt'']" "''Hotdog''" hotdog
       hotdog "[AddTopping ''Chili'', AddTopping ''Gravel'', AddTopping ''Chili'']"]
  show ?thesis by simp
qed

section \<open>Order.add_item\<close>

text \<open>
  C10: \<^verbatim>\<open>add_item\<close> returns for every object and appends it; \<^verbatim>\<open>get_num_items()\<close> is
  then one more. For an object that is neither a Drink nor a Food, \<^verbatim>\<open>get_total()\<close> is
  the same float as before, on either interpreter.
\<close>

theorem C10_add_item_other:
  "add_item x ord = (Inr (), ord\<lparr>items := items ord @ [x]\<rparr>) \<and>
   get_num_items (snd (add_item x ord)) = get_num_items ord + 1 \<and>
   get_num_items (snd (add_item (OtherItem y) ord)) = get_num_items ord + 1 \<and>
   get_total v (snd (add_item (OtherItem y) ord)) = get_total v ord"
  by (simp add: add_item_def get_num_items_def get_total_def total_loop_append_other)

end
